theory Spec2Isabelle
  imports Complex_Main "HOL-Library.Sublist" "HOL-Library.Multiset"
begin

section \<open>Python values and strings\<close>

text \<open>
  The plugin is Python 3 code (\<^verbatim>\<open>src/sopel_climacell/plugin.py\<close>). A Python \<^verbatim>\<open>str\<close> is a
  sequence of Unicode code points, so a string is a list of code points and \<^verbatim>\<open>len\<close> is
  \<open>length\<close>. ASCII text is written through \<open>ustr\<close>; the non-ASCII characters of the
  source's string literals are written as the code points stored in the source file.
\<close>

type_synonym ustring = "nat list"

definition ustr :: "string \<Rightarrow> ustring" where
  "ustr s = map of_char s"

text \<open>
  The values a field of the weather API's JSON carries: null, an integer, a float or a string.
  A float is a finite IEEE double, represented by its exact rational value; comparison,
  truthiness and rounding to an integer are exact on doubles, every other float operation is
  taken from the record \<open>lib\<close> below.
\<close>

datatype pyval = PNone | PInt int | PFloat rat | PStr ustring

datatype error = KeyError | TypeError | AttributeError | ValueError | FormatError | ParserError

type_synonym value_map = "ustring \<Rightarrow> pyval option"

text \<open>A field of the response: a JSON object (a dict) or a bare scalar such as \<^verbatim>\<open>lat\<close>.\<close>

datatype field = Scalar pyval | Dict value_map

fun truthy :: "pyval \<Rightarrow> bool" where
  "truthy PNone = False"
| "truthy (PInt n) = (n \<noteq> 0)"
| "truthy (PFloat q) = (q \<noteq> 0)"
| "truthy (PStr s) = (s \<noteq> [])"

text \<open>\<^verbatim>\<open>d.get(k)\<close>: the value, or \<^verbatim>\<open>None\<close> when the key is missing.\<close>

definition dict_get :: "value_map \<Rightarrow> ustring \<Rightarrow> pyval" where
  "dict_get d k = (case d k of None \<Rightarrow> PNone | Some v \<Rightarrow> v)"

fun num_of :: "pyval \<Rightarrow> rat option" where
  "num_of (PInt n) = Some (of_int n)"
| "num_of (PFloat q) = Some q"
| "num_of _ = None"

text \<open>\<^verbatim>\<open>round(x)\<close> of Python 3 on a float: the nearest integer, a tie going to the even one.\<close>

definition py_round :: "rat \<Rightarrow> int" where
  "py_round q =
     (let f = \<lfloor>q\<rfloor>; d = q - of_int f
      in if d < 1 / 2 then f else if 1 / 2 < d then f + 1 else if even f then f else f + 1)"

text \<open>\<^verbatim>\<open>str(n)\<close> of an integer: its decimal digits.\<close>

fun str_nat :: "nat \<Rightarrow> ustring" where
  "str_nat n = (if n < 10 then [48 + n] else str_nat (n div 10) @ [48 + n mod 10])"

declare str_nat.simps [simp del]

definition str_int :: "int \<Rightarrow> ustring" where
  "str_int i = (if i < 0 then 45 # str_nat (nat (- i)) else str_nat (nat i))"

text \<open>
  What the plugin takes from outside the repository and a shallow embedding cannot compute:
  \<^verbatim>\<open>f_to_c\<close> and \<^verbatim>\<open>c_to_f\<close> of \<^verbatim>\<open>sopel.modules.units\<close> (float arithmetic), \<^verbatim>\<open>round(x, n)\<close> and
  \<^verbatim>\<open>"{}".format(x)\<close> on a float, \<^verbatim>\<open>"{:.2f}".format(x)\<close>, the time conversion of \<^verbatim>\<open>pendulum\<close>
  used by \<^verbatim>\<open>_parse_time\<close>, and \<^verbatim>\<open>str.isprintable\<close> on the non-ASCII code points (used by
  \<^verbatim>\<open>repr\<close>). Every theorem below holds for every such record.
\<close>

record lib =
  f_to_c :: "rat \<Rightarrow> rat"
  c_to_f :: "rat \<Rightarrow> rat"
  round_float :: "rat \<Rightarrow> nat \<Rightarrow> rat"
  str_float :: "rat \<Rightarrow> ustring"
  format_2f :: "rat \<Rightarrow> ustring"
  parse_time :: "pyval \<Rightarrow> ustring \<Rightarrow> error + ustring"
  isprintable :: "nat \<Rightarrow> bool"

text \<open>\<^verbatim>\<open>str(v)\<close>, which is also \<^verbatim>\<open>"{}".format(v)\<close>.\<close>

fun py_str :: "lib \<Rightarrow> pyval \<Rightarrow> ustring" where
  "py_str L PNone = ustr ''None''"
| "py_str L (PInt n) = str_int n"
| "py_str L (PFloat q) = str_float L q"
| "py_str L (PStr s) = s"

section \<open>sopel.formatting\<close>

text \<open>
  \<^verbatim>\<open>bold\<close> wraps a text in the control character 0x02; \<^verbatim>\<open>color(text, fg)\<close> puts the control
  character 0x03 and the two-digit colour code before the text and 0x03 after it. The colour
  codes are those of the class \<^verbatim>\<open>sopel.formatting.colors\<close>.
\<close>

definition bold :: "ustring \<Rightarrow> ustring" where
  "bold text = [2] @ text @ [2]"

definition color :: "ustring \<Rightarrow> ustring \<Rightarrow> ustring" where
  "color text fg = [3] @ fg @ text @ [3]"

definition LIGHT_BLUE :: ustring where "LIGHT_BLUE = ustr ''12''"
definition TEAL :: ustring where "TEAL = ustr ''10''"
definition BLUE :: ustring where "BLUE = ustr ''02''"
definition LIGHT_GREEN :: ustring where "LIGHT_GREEN = ustr ''09''"
definition GREEN :: ustring where "GREEN = ustr ''03''"
definition YELLOW :: ustring where "YELLOW = ustr ''08''"
definition ORANGE :: ustring where "ORANGE = ustr ''07''"
definition RED :: ustring where "RED = ustr ''04''"

section \<open>The tables of the plugin\<close>

definition WEATHER_CODE_DESCRIPTIONS :: "(ustring \<times> ustring) list" where
  "WEATHER_CODE_DESCRIPTIONS = [
    (ustr ''rain_heavy'', [0xF0, 0x178, 0x152, 0xA7, 0xEF, 0xB8] @ ustr '' Substantial rain''),
    (ustr ''rain'', [0xF0, 0x178, 0x152, 0xA7, 0xEF, 0xB8] @ ustr '' Rain''),
    (ustr ''rain_light'', [0xF0, 0x178, 0x152, 0xA7, 0xEF, 0xB8] @ ustr '' Light rain''),
    (ustr ''freezing_rain_heavy'', [0xF0, 0x178, 0xA7, 0x160, 0xF0, 0x178, 0x152, 0xA7, 0xEF, 0xB8] @ ustr '' Substantial freezing rain''),
    (ustr ''freezing_rain'', [0xF0, 0x178, 0xA7, 0x160, 0xF0, 0x178, 0x152, 0xA7, 0xEF, 0xB8] @ ustr '' Freezing rain''),
    (ustr ''freezing_rain_light'', [0xF0, 0x178, 0xA7, 0x160, 0xF0, 0x178, 0x152, 0xA7, 0xEF, 0xB8] @ ustr '' Light freezing rain''),
    (ustr ''freezing_drizzle'', [0xF0, 0x178, 0xA7, 0x160, 0xF0, 0x178, 0x152, 0xA7, 0xEF, 0xB8] @ ustr '' Light freezing rain falling in fine pieces''),
    (ustr ''drizzle'', [0xF0, 0x178, 0x152, 0xA6, 0xEF, 0xB8] @ ustr '' Drizzle''),
    (ustr ''ice_pellets_heavy'', [0xF0, 0x178, 0xA7, 0x160] @ ustr '' Substantial ice pellets''),
    (ustr ''ice_pellets'', [0xF0, 0x178, 0xA7, 0x160] @ ustr '' Ice pellets''),
    (ustr ''ice_pellets_light'', [0xF0, 0x178, 0xA7, 0x160] @ ustr '' Light ice pellets''),
    (ustr ''snow_heavy'', [0xE2, 0x201E, 0xEF, 0xB8] @ ustr '' Substantial snow''),
    (ustr ''snow'', [0xE2, 0x201E, 0xEF, 0xB8] @ ustr '' Snow''),
    (ustr ''snow_light'', [0xE2, 0x201E, 0xEF, 0xB8] @ ustr '' Light snow''),
    (ustr ''flurries'', [0xE2, 0x201E, 0xEF, 0xB8] @ ustr '' Flurries''),
    (ustr ''tstorm'', [0xF0, 0x178, 0x152, 0xA9, 0xEF, 0xB8] @ ustr '' Thunderstorm conditions''),
    (ustr ''fog_light'', [0xF0, 0x178, 0x152] @ ustr '' Light fog''),
    (ustr ''fog'', [0xF0, 0x178, 0x152] @ ustr '' Fog''),
    (ustr ''cloudy'', [0xE2, 0x2DC, 0xEF, 0xB8] @ ustr '' Cloudy''),
    (ustr ''mostly_cloudy'', [0xF0, 0x178, 0x152, 0xA5, 0xEF, 0xB8] @ ustr '' Mostly cloudy''),
    (ustr ''partly_cloudy'', [0xE2, 0x203A, 0x2026] @ ustr '' Partly cloudy''),
    (ustr ''mostly_clear'', [0xF0, 0x178, 0x152, 0xA4, 0xEF, 0xB8] @ ustr '' Mostly clear''),
    (ustr ''clear'', [0xE2, 0x2DC, 0x20AC, 0xEF, 0xB8] @ ustr '' Clear'')]"

definition MAPPED_FIELDS :: "(ustring \<times> ustring) list" where
  "MAPPED_FIELDS = [
    (ustr ''weather_code'', bold (ustr ''Conditions:'')),
    (ustr ''feels_like'', bold (ustr ''Feels Like:'')),
    (ustr ''dewpoint'', bold (ustr ''Dewpoint:'')),
    (ustr ''humidity'', bold (ustr ''Humidity:'')),
    (ustr ''wind_speed'', bold (ustr ''Wind Speed:'')),
    (ustr ''wind_direction'', bold (ustr ''Wind Direction:'')),
    (ustr ''wind_gust'', bold (ustr ''Wind Gust:'')),
    (ustr ''baro_pressure'', bold (ustr ''Pressure:'')),
    (ustr ''precipitation'', bold (ustr ''Precipitation:'')),
    (ustr ''precipitation_type'', bold (ustr ''Precipitation:'')),
    (ustr ''sunrise'', bold (ustr ''Sunrise:'')),
    (ustr ''sunset'', bold (ustr ''Sunset:'')),
    (ustr ''visibility'', bold (ustr ''Visibility:'')),
    (ustr ''cloud_cover'', bold (ustr ''Cloud Cover:'')),
    (ustr ''cloud_base'', bold (ustr ''Cloud Base:'')),
    (ustr ''cloud_ceiling'', bold (ustr ''Cloud Ceiling:'')),
    (ustr ''surface_shortwave_radiation'', bold (ustr ''Solar Radiation:'')),
    (ustr ''moon_phase'', bold (ustr ''Moon P'' @ [0xE2, 0x20AC, 0x2039] @ ustr ''hase:'')),
    (ustr ''epa_health_concern'', bold (ustr ''Air Quality:''))]"

definition SORTED_FIELDS :: "(ustring \<times> nat) list" where
  "SORTED_FIELDS = [
    (ustr ''weather_code'', 3),
    (ustr ''temp'', 1),
    (ustr ''feels_like'', 2),
    (ustr ''dewpoint'', 7),
    (ustr ''humidity'', 6),
    (ustr ''wind_speed'', 8),
    (ustr ''wind_direction'', 10),
    (ustr ''wind_gust'', 9),
    (ustr ''baro_pressure'', 11),
    (ustr ''precipitation'', 5),
    (ustr ''precipitation_type'', 4),
    (ustr ''sunrise'', 12),
    (ustr ''sunset'', 13),
    (ustr ''visibility'', 14),
    (ustr ''cloud_cover'', 15),
    (ustr ''cloud_base'', 16),
    (ustr ''cloud_ceiling'', 17),
    (ustr ''surface_shortwave_radiation'', 18),
    (ustr ''moon_phase'', 19),
    (ustr ''epa_health_concern'', 20)]"

text \<open>The table local to \<^verbatim>\<open>moonphases\<close> in \<^verbatim>\<open>_get_value_format\<close>.\<close>

definition moon_phases :: "(ustring \<times> ustring) list" where
  "moon_phases = [
    (ustr ''new'', [0xF0, 0x178, 0x152, 0x2018] @ ustr '' new moon''),
    (ustr ''new_moon'', [0xF0, 0x178, 0x152, 0x2018] @ ustr '' new moon''),
    (ustr ''waxing_crescent'', [0xF0, 0x178, 0x152, 0x2019] @ ustr '' waxing crescent (1/4 full)''),
    (ustr ''first_quarter'', [0xF0, 0x178, 0x152, 0x201C] @ ustr '' half moon (first quarter)''),
    (ustr ''waxing_gibbous'', [0xF0, 0x178, 0x152, 0x201D] @ ustr '' waxing gibbous (3/4 full)''),
    (ustr ''full'', [0xF0, 0x178, 0x152, 0x2022] @ ustr '' full moon''),
    (ustr ''waning_gibbous'', [0xF0, 0x178, 0x152, 0x2013] @ ustr '' waning gibbous (3/4 full)''),
    (ustr ''third_quarter'', [0xF0, 0x178, 0x152, 0x2014] @ ustr '' half moon (last quarter)''),
    (ustr ''last_quarter'', [0xF0, 0x178, 0x152, 0x2014] @ ustr '' half moon (last quarter)''),
    (ustr ''waning_crescent'', [0xF0, 0x178, 0x152, 0x2DC] @ ustr '' waning crescent (1/4 full)'')]"

section \<open>Wind direction and temperature colour\<close>

text \<open>
  \<^verbatim>\<open>get_wind\<close>: comparing a string or \<^verbatim>\<open>None\<close> with a float raises \<^verbatim>\<open>TypeError\<close>; when no branch
  of the chain is taken the bearing is returned as it came.
\<close>

definition get_wind :: "pyval \<Rightarrow> error + pyval" where
  "get_wind bearing =
     (case num_of bearing of
        None \<Rightarrow> Inl TypeError
      | Some b \<Rightarrow>
          Inr (if b \<le> 22.5 \<or> b > 337.5 then PStr ([0x2193] @ ustr '' N'')
               else if b > 22.5 \<and> b \<le> 67.5 then PStr ([0x2199] @ ustr '' NE'')
               else if b > 67.5 \<and> b \<le> 112.5 then PStr ([0x2190] @ ustr '' E'')
               else if b > 112.5 \<and> b \<le> 157.5 then PStr ([0x2196] @ ustr '' SE'')
               else if b > 157.5 \<and> b \<le> 202.5 then PStr ([0x2191] @ ustr '' S'')
               else if b > 202.5 \<and> b \<le> 247.5 then PStr ([0x2197] @ ustr '' SW'')
               else if b > 247.5 \<and> b \<le> 292.5 then PStr ([0x2192] @ ustr '' W'')
               else if b > 292.5 \<and> b \<le> 337.5 then PStr ([0x2198] @ ustr '' NW'')
               else bearing))"

text \<open>\<^verbatim>\<open>_get_temp_color\<close>, on the value of the number it is given.\<close>

definition get_temp_color :: "rat \<Rightarrow> ustring" where
  "get_temp_color f =
     (if f < 10 then LIGHT_BLUE
      else if f < 32 then TEAL
      else if f < 50 then BLUE
      else if f < 60 then LIGHT_GREEN
      else if f < 70 then GREEN
      else if f < 80 then YELLOW
      else if f < 90 then ORANGE
      else RED)"

section \<open>String operations of Python\<close>

text \<open>
  \<^verbatim>\<open>template.format(pfx=..., field=...)\<close>: \<^verbatim>\<open>{{\<close> and \<^verbatim>\<open>}}\<close> are literal braces, \<^verbatim>\<open>{pfx}\<close> and
  \<^verbatim>\<open>{field}\<close> are replaced, a single \<^verbatim>\<open>}\<close> or an unclosed \<^verbatim>\<open>{\<close> raises \<^verbatim>\<open>ValueError\<close>. Any
  other replacement field (another name, an index, a conversion or a format specification) is
  not followed further: the model answers \<open>FormatError\<close> there, and no theorem is about it.
  The code points are 123 for \<^verbatim>\<open>{\<close> and 125 for \<^verbatim>\<open>}\<close>.
\<close>

definition and_then :: "error + 'a \<Rightarrow> ('a \<Rightarrow> error + 'b) \<Rightarrow> error + 'b" where
  "and_then m f = (case m of Inl e \<Rightarrow> Inl e | Inr x \<Rightarrow> f x)"

function py_format :: "ustring \<Rightarrow> ustring \<Rightarrow> ustring \<Rightarrow> error + ustring" where
  "py_format pfx fld [] = Inr []"
| "py_format pfx fld (c # cs) =
     (if c = 123 then
        (if cs = [] then Inl ValueError
         else if hd cs = 123 then and_then (py_format pfx fld (tl cs)) (\<lambda>r. Inr (123 # r))
         else if dropWhile (\<lambda>x. x \<noteq> 125) cs = [] then Inl ValueError
         else if takeWhile (\<lambda>x. x \<noteq> 125) cs = ustr ''pfx''
           then and_then (py_format pfx fld (tl (dropWhile (\<lambda>x. x \<noteq> 125) cs))) (\<lambda>r. Inr (pfx @ r))
         else if takeWhile (\<lambda>x. x \<noteq> 125) cs = ustr ''field''
           then and_then (py_format pfx fld (tl (dropWhile (\<lambda>x. x \<noteq> 125) cs))) (\<lambda>r. Inr (fld @ r))
         else Inl FormatError)
      else if c = 125 then
        (if cs \<noteq> [] \<and> hd cs = 125 then and_then (py_format pfx fld (tl cs)) (\<lambda>r. Inr (125 # r))
         else Inl ValueError)
      else and_then (py_format pfx fld cs) (\<lambda>r. Inr (c # r)))"
  by pat_completeness auto
termination
proof (relation "measure (\<lambda>(pfx, fld, s). length s)")
  fix pfx fld :: ustring and c :: nat and cs :: ustring
  have shorter: "length (dropWhile (\<lambda>x. x \<noteq> 125) cs) \<le> length cs"
    by (rule length_dropWhile_le)
  show "((pfx, fld, tl (dropWhile (\<lambda>x. x \<noteq> 125) cs)), pfx, fld, c # cs)
      \<in> measure (\<lambda>(pfx, fld, s). length s)"
    using shorter by simp
  show "((pfx, fld, tl (dropWhile (\<lambda>x. x \<noteq> 125) cs)), pfx, fld, c # cs)
      \<in> measure (\<lambda>(pfx, fld, s). length s)"
    using shorter by simp
qed auto

declare py_format.simps [simp del]

text \<open>
  \<^verbatim>\<open>s.replace(old, new)\<close>: the occurrences of \<open>old\<close> are replaced from the left, without
  overlap; an empty \<open>old\<close> puts \<open>new\<close> before every character and at the end.
\<close>

function replace_from :: "'a list \<Rightarrow> 'a list \<Rightarrow> 'a list \<Rightarrow> 'a list" where
  "replace_from old new [] = []"
| "replace_from old new (c # cs) =
     (if old \<noteq> [] \<and> prefix old (c # cs)
      then new @ replace_from old new (drop (length old) (c # cs))
      else c # replace_from old new cs)"
  by pat_completeness auto
termination
  by (relation "measure (\<lambda>(old, new, s). length s)") (auto simp: Suc_le_eq)

declare replace_from.simps [simp del]

definition py_replace :: "'a list \<Rightarrow> 'a list \<Rightarrow> 'a list \<Rightarrow> 'a list" where
  "py_replace old new s =
     (if old = [] then new @ concat (map (\<lambda>c. c # new) s) else replace_from old new s)"

text \<open>\<^verbatim>\<open>s.split(sep)\<close>, which raises \<^verbatim>\<open>ValueError\<close> on an empty separator, and \<^verbatim>\<open>sep.join(parts)\<close>.\<close>

function split_from :: "'a list \<Rightarrow> 'a list \<Rightarrow> 'a list \<Rightarrow> 'a list list" where
  "split_from sep cur [] = [cur]"
| "split_from sep cur (c # cs) =
     (if sep \<noteq> [] \<and> prefix sep (c # cs)
      then cur # split_from sep [] (drop (length sep) (c # cs))
      else split_from sep (cur @ [c]) cs)"
  by pat_completeness auto
termination
  by (relation "measure (\<lambda>(sep, cur, s). length s)") (auto simp: Suc_le_eq)

declare split_from.simps [simp del]

definition py_split :: "'a list \<Rightarrow> 'a list \<Rightarrow> error + 'a list list" where
  "py_split s sep = (if sep = [] then Inl ValueError else Inr (split_from sep [] s))"

fun py_join :: "'a list \<Rightarrow> 'a list list \<Rightarrow> 'a list" where
  "py_join sep [] = []"
| "py_join sep [x] = x"
| "py_join sep (x # y # ys) = x @ sep @ py_join sep (y # ys)"

text \<open>
  \<^verbatim>\<open>repr(s)\<close> of a \<^verbatim>\<open>str\<close>: the text between quotes (double quotes when it holds a single
  quote and no double quote), with the quote and the backslash escaped, tab, newline and
  carriage return as \<^verbatim>\<open>\t\<close>, \<^verbatim>\<open>\n\<close>, \<^verbatim>\<open>\r\<close>, the other ASCII control characters as \<^verbatim>\<open>\xhh\<close>, and a
  non-ASCII character that is not printable as \<^verbatim>\<open>\xhh\<close>, \<^verbatim>\<open>\uhhhh\<close> or \<^verbatim>\<open>\Uhhhhhhhh\<close>.
  The code points: 34 and 39 the quotes, 92 the backslash.
\<close>

definition hex_digit :: "nat \<Rightarrow> nat" where
  "hex_digit d = (if d < 10 then 48 + d else 87 + d)"

definition hex_digits :: "nat \<Rightarrow> nat \<Rightarrow> ustring" where
  "hex_digits w c = map (\<lambda>i. hex_digit (c div 16 ^ i mod 16)) (rev [0..<w])"

definition repr_char :: "lib \<Rightarrow> nat \<Rightarrow> nat \<Rightarrow> ustring" where
  "repr_char L quote c =
     (if c = quote \<or> c = 92 then [92, c]
      else if c = 9 then [92, 116]
      else if c = 10 then [92, 110]
      else if c = 13 then [92, 114]
      else if c < 32 \<or> c = 127 then [92, 120] @ hex_digits 2 c
      else if c < 127 then [c]
      else if isprintable L c then [c]
      else if c \<le> 255 then [92, 120] @ hex_digits 2 c
      else if c \<le> 65535 then [92, 117] @ hex_digits 4 c
      else [92, 85] @ hex_digits 8 c)"

definition py_repr :: "lib \<Rightarrow> ustring \<Rightarrow> ustring" where
  "py_repr L s =
     (let quote = (if 39 \<in> set s \<and> 34 \<notin> set s then 34 else 39)
      in [quote] @ concat (map (repr_char L quote) s) @ [quote])"

section \<open>Formatting one value: \<^verbatim>\<open>_get_value_format\<close>\<close>

text \<open>
  The closures of \<^verbatim>\<open>_get_value_format\<close>. \<^verbatim>\<open>round\<close> of a string or of \<^verbatim>\<open>None\<close> raises
  \<^verbatim>\<open>TypeError\<close>, \<^verbatim>\<open>round(n)\<close> of an integer is the integer, and a value that is no key of
  \<open>moon_phases\<close> raises \<^verbatim>\<open>KeyError\<close>.
\<close>

definition moonphases :: "lib \<Rightarrow> pyval \<Rightarrow> error + ustring" where
  "moonphases L v =
     (case v of
        PStr s \<Rightarrow> (case map_of moon_phases s of Some d \<Rightarrow> Inr d | None \<Rightarrow> Inl KeyError)
      | _ \<Rightarrow> Inl KeyError)"

definition round_int :: "lib \<Rightarrow> pyval \<Rightarrow> error + ustring" where
  "round_int L v =
     (case v of
        PInt n \<Rightarrow> Inr (str_int n)
      | PFloat q \<Rightarrow> Inr (str_int (py_round q))
      | _ \<Rightarrow> Inl TypeError)"

definition round_decimal :: "lib \<Rightarrow> pyval \<Rightarrow> error + ustring" where
  "round_decimal L v =
     (case v of
        PInt n \<Rightarrow> Inr (format_2f L (of_int n))
      | PFloat q \<Rightarrow> Inr (format_2f L (round_float L q 2))
      | _ \<Rightarrow> Inl TypeError)"

definition stringify :: "lib \<Rightarrow> pyval \<Rightarrow> error + ustring" where
  "stringify L v = Inr (py_str L v)"

definition formats :: "(ustring \<times> (lib \<Rightarrow> pyval \<Rightarrow> error + ustring)) list" where
  "formats = [
    (ustr ''humidity'', round_int),
    (ustr ''baro_pressure'', round_decimal),
    (ustr ''wind_speed'', round_int),
    (ustr ''wind_gust'', round_int),
    (ustr ''moon_phase'', moonphases),
    (ustr ''visibility'', round_int),
    (ustr ''surface_shortwave_radiation'', round_int)]"

definition get_value_format :: "lib \<Rightarrow> pyval \<Rightarrow> ustring \<Rightarrow> error + ustring" where
  "get_value_format L v fld =
     (case map_of formats fld of Some func \<Rightarrow> func L v | None \<Rightarrow> stringify L v)"

section \<open>Formatting the fields: \<^verbatim>\<open>_parse_data\<close>\<close>

text \<open>The dict \<^verbatim>\<open>{'value': x}\<close>.\<close>

definition single :: "pyval \<Rightarrow> value_map" where
  "single x = [ustr ''value'' \<mapsto> x]"

text \<open>
  Lines 330 and 331: \<^verbatim>\<open>WEATHER_CODE_DESCRIPTIONS[values['value']]\<close>; a value that is no key of
  the table raises \<^verbatim>\<open>KeyError\<close>.
\<close>

definition code_step :: "ustring \<Rightarrow> pyval \<Rightarrow> value_map \<Rightarrow> error + value_map" where
  "code_step key v value_map =
     (if key = ustr ''weather_code'' then
        (case v of
           PStr s \<Rightarrow>
             (case map_of WEATHER_CODE_DESCRIPTIONS s of
                Some d \<Rightarrow> Inr (single (PStr d))
              | None \<Rightarrow> Inl KeyError)
         | _ \<Rightarrow> Inl KeyError)
      else Inr value_map)"

text \<open>\<^verbatim>\<open>"{}".format(round(x, n))\<close>: \<^verbatim>\<open>round(x, n)\<close> of an integer is the integer.\<close>

definition round_to_str :: "lib \<Rightarrow> pyval \<Rightarrow> nat \<Rightarrow> error + ustring" where
  "round_to_str L v n =
     (case v of
        PInt i \<Rightarrow> Inr (str_int i)
      | PFloat q \<Rightarrow> Inr (str_float L (round_float L q n))
      | _ \<Rightarrow> Inl TypeError)"

text \<open>
  Lines 333 to 349. The two format literals hold, before each of the letters \<^verbatim>\<open>F\<close> and \<^verbatim>\<open>C\<close>,
  the two code points 0xC2 and 0xB0 of the source file. \<^verbatim>\<open>_get_temp_color\<close>,
  \<^verbatim>\<open>f_to_c\<close> and \<^verbatim>\<open>c_to_f\<close> raise \<^verbatim>\<open>TypeError\<close> on a value that is no number; \<^verbatim>\<open>f_to_c\<close> and
  \<^verbatim>\<open>c_to_f\<close> return a float.
\<close>

definition temp_step :: "lib \<Rightarrow> value_map \<Rightarrow> error + value_map" where
  "temp_step L value_map =
     (if truthy (dict_get value_map (ustr ''units'')) then
        if dict_get value_map (ustr ''units'') = PStr (ustr ''F'') then
          (case num_of (dict_get value_map (ustr ''value'')) of
             None \<Rightarrow> Inl TypeError
           | Some f \<Rightarrow>
               and_then (round_int L (dict_get value_map (ustr ''value''))) (\<lambda>s1.
               and_then (round_to_str L (PFloat (f_to_c L f)) 1) (\<lambda>s2.
                 Inr (single (PStr (color s1 (get_temp_color f) @ [0xC2, 0xB0] @ ustr ''F/''
                   @ color s2 (get_temp_color f) @ [0xC2, 0xB0] @ ustr ''C''))))))
        else if dict_get value_map (ustr ''units'') = PStr (ustr ''C'') then
          (case num_of (dict_get value_map (ustr ''value'')) of
             None \<Rightarrow> Inl TypeError
           | Some c \<Rightarrow>
               and_then (round_to_str L (dict_get value_map (ustr ''value'')) 1) (\<lambda>s1.
               and_then (round_int L (PFloat (c_to_f L c))) (\<lambda>s2.
                 Inr (single (PStr (color s1 (get_temp_color (c_to_f L c)) @ [0xC2, 0xB0]
                   @ ustr ''C/'' @ color s2 (get_temp_color (c_to_f L c)) @ [0xC2, 0xB0]
                   @ ustr ''F''))))))
        else Inr value_map
      else Inr value_map)"

text \<open>Lines 351 to 355: both steps read the value of the field as it came (\<^verbatim>\<open>values['value']\<close>).\<close>

definition wind_step :: "ustring \<Rightarrow> pyval \<Rightarrow> value_map \<Rightarrow> error + value_map" where
  "wind_step key v value_map =
     (if key = ustr ''wind_direction'' then and_then (get_wind v) (\<lambda>w. Inr (single w))
      else Inr value_map)"

definition time_step :: "lib \<Rightarrow> ustring \<Rightarrow> ustring \<Rightarrow> pyval \<Rightarrow> value_map \<Rightarrow> error + value_map" where
  "time_step L timezone key v value_map =
     (if key \<in> set [ustr ''sunrise'', ustr ''sunset'']
      then and_then (parse_time L v timezone) (\<lambda>t. Inr (single (PStr t)))
      else Inr value_map)"

text \<open>Lines 357 to 360: whatever \<^verbatim>\<open>_get_value_format\<close> raises is caught and the value stays.\<close>

definition format_step :: "lib \<Rightarrow> ustring \<Rightarrow> value_map \<Rightarrow> value_map" where
  "format_step L key value_map =
     (case value_map (ustr ''value'') of
        None \<Rightarrow> value_map
      | Some x \<Rightarrow>
          (case get_value_format L x key of
             Inr s \<Rightarrow> value_map(ustr ''value'' \<mapsto> PStr s)
           | Inl e \<Rightarrow> value_map))"

text \<open>
  Line 362: \<^verbatim>\<open>Template("{pfx}{field} $value$units").safe_substitute(value_map)\<close> puts \<^verbatim>\<open>str\<close> of
  the value of a key in the place of its placeholder and leaves the placeholder of a missing
  key as it is.
\<close>

definition safe_substitute :: "lib \<Rightarrow> value_map \<Rightarrow> ustring" where
  "safe_substitute L value_map =
     ustr ''{pfx}{field} ''
     @ (case value_map (ustr ''value'') of Some x \<Rightarrow> py_str L x | None \<Rightarrow> ustr ''$value'')
     @ (case value_map (ustr ''units'') of Some u \<Rightarrow> py_str L u | None \<Rightarrow> ustr ''$units'')"

text \<open>\<^verbatim>\<open>MAPPED_FIELDS.get(key, "")\<close>.\<close>

definition field_label :: "ustring \<Rightarrow> ustring" where
  "field_label key = (case map_of MAPPED_FIELDS key of Some l \<Rightarrow> l | None \<Rightarrow> [])"

text \<open>
  The body of the loop of \<^verbatim>\<open>_parse_data\<close> for one item, \<open>pfx\<close> being the \<^verbatim>\<open>prefix\<close> of the
  source: \<open>Inr None\<close> when the item is skipped
  (\<^verbatim>\<open>continue\<close>), \<open>Inr (Some text)\<close> with the text appended to \<^verbatim>\<open>string\<close>, \<open>Inl\<close> when it raises.
  A field that is no dict has no \<^verbatim>\<open>get\<close> (\<^verbatim>\<open>AttributeError\<close>).
\<close>

definition parse_item :: "lib \<Rightarrow> ustring \<Rightarrow> ustring \<Rightarrow> ustring \<Rightarrow> field \<Rightarrow> error + ustring option" where
  "parse_item L timezone pfx key values =
     (if key \<in> set [ustr ''lat'', ustr ''lon'', ustr ''observation_time''] then Inr None
      else case values of
        Scalar x \<Rightarrow> Inl AttributeError
      | Dict value_map \<Rightarrow>
          if \<not> truthy (dict_get value_map (ustr ''value''))
             \<or> dict_get value_map (ustr ''value'') = PStr (ustr ''none'')
          then Inr None
          else
            and_then (code_step key (dict_get value_map (ustr ''value'')) value_map) (\<lambda>vm1.
            and_then (temp_step L vm1) (\<lambda>vm2.
            and_then (wind_step key (dict_get value_map (ustr ''value'')) vm2) (\<lambda>vm3.
            and_then (time_step L timezone key (dict_get value_map (ustr ''value'')) vm3) (\<lambda>vm4.
            and_then (py_format pfx (field_label key)
                        (safe_substitute L (format_step L key vm4))) (\<lambda>text.
              Inr (Some text)))))))"

fun parse_loop :: "lib \<Rightarrow> ustring \<Rightarrow> (ustring \<times> field) list \<Rightarrow> ustring \<Rightarrow> nat \<Rightarrow> error + ustring" where
  "parse_loop L timezone [] string idx = Inr string"
| "parse_loop L timezone ((key, values) # rest) string idx =
     (case parse_item L timezone (if idx = 0 then [] else ustr '' | '') key values of
        Inl e \<Rightarrow> Inl e
      | Inr None \<Rightarrow> parse_loop L timezone rest string idx
      | Inr (Some text) \<Rightarrow> parse_loop L timezone rest (string @ text) (idx + 1))"

text \<open>\<^verbatim>\<open>_parse_data\<close>; the items of the dict come in its order.\<close>

definition parse_data :: "lib \<Rightarrow> (ustring \<times> field) list \<Rightarrow> ustring \<Rightarrow> error + ustring" where
  "parse_data L data timezone =
     and_then (parse_loop L timezone data [] 0) (\<lambda>string.
       Inr (py_replace (ustr ''$units'') [] string))"

section \<open>The reply: \<^verbatim>\<open>get_weather\<close> and \<^verbatim>\<open>weather\<close>\<close>

text \<open>
  \<^verbatim>\<open>get_weather\<close> from line 295 on, with the decoded JSON object of the response as \<open>data\<close>: an
  association list with the keys of the object in their order (a \<^verbatim>\<open>dict\<close> keeps the order of
  insertion, and its keys are distinct). \<^verbatim>\<open>sorted\<close> is a stable sort; a rank that is missing or
  zero counts as 999.
\<close>

definition sort_keys :: "ustring \<Rightarrow> nat" where
  "sort_keys k =
     (case map_of SORTED_FIELDS k of Some r \<Rightarrow> (if r \<noteq> 0 then r else 999) | None \<Rightarrow> 999)"

definition sorted_dict :: "(ustring \<times> field) list \<Rightarrow> (ustring \<times> field) list" where
  "sorted_dict data = map (\<lambda>k. (k, the (map_of data k))) (sort_key sort_keys (map fst data))"

definition get_weather :: "lib \<Rightarrow> ustring \<Rightarrow> ustring \<Rightarrow> (ustring \<times> field) list \<Rightarrow> error + ustring" where
  "get_weather L location timezone data =
     and_then (parse_data L (sorted_dict data) timezone) (\<lambda>parsed_fields.
       Inr (bold (ustr ''['' @ location @ ustr '']'') @ ustr '' '' @ parsed_fields
            @ ustr '' | Powered by ClimaCell API (https://www.climacell.co/weather-api)''))"

text \<open>
  Lines 207 to 214 of \<^verbatim>\<open>weather\<close>: the list of the texts passed to \<^verbatim>\<open>bot.say\<close>, in order.
  \<^verbatim>\<open>int(len(reply) / 2)\<close> is the half of the number of parts, rounded down.
\<close>

definition say_reply :: "lib \<Rightarrow> ustring \<Rightarrow> error + ustring list" where
  "say_reply L reply =
     (if length (py_repr L reply) > 475 then
        and_then (py_split reply (ustr '' | '')) (\<lambda>parts.
          Inr [py_join (ustr '' | '') (take (length parts div 2) parts),
               py_join (ustr '' | '') (drop (length parts div 2) parts)])
      else Inr [reply])"

definition weather :: "lib \<Rightarrow> ustring \<Rightarrow> ustring \<Rightarrow> (ustring \<times> field) list \<Rightarrow> error + ustring list" where
  "weather L location timezone data =
     and_then (get_weather L location timezone data) (say_reply L)"

section \<open>Auxiliary notions of the statements\<close>

text \<open>
  A text without \<^verbatim>\<open>$\<close> (36), \<^verbatim>\<open>{\<close> (123) and \<^verbatim>\<open>}\<close> (125): \<^verbatim>\<open>str.format\<close> and the final
  \<^verbatim>\<open>replace('$units', '')\<close> leave it as it is.
\<close>

definition plain :: "ustring \<Rightarrow> bool" where
  "plain s \<longleftrightarrow> 36 \<notin> set s \<and> 123 \<notin> set s \<and> 125 \<notin> set s"

text \<open>
  An instance of \<open>lib\<close> for evaluating the model on concrete inputs: exact rational arithmetic
  in the place of float arithmetic, a rendering with one decimal digit, a time conversion that
  fails, and every non-ASCII character printable.
\<close>

definition dec1 :: "rat \<Rightarrow> ustring" where
  "dec1 q = (if q < 0 then [45] else []) @ str_nat (nat \<lfloor>\<bar>q\<bar> * 10\<rfloor> div 10) @ [46]
     @ str_nat (nat \<lfloor>\<bar>q\<bar> * 10\<rfloor> mod 10)"

definition exact_lib :: lib where
  "exact_lib = \<lparr>f_to_c = (\<lambda>t. (t - 32) * 5 / 9), c_to_f = (\<lambda>t. 9 / 5 * t + 32),
     round_float = (\<lambda>q n. of_int (py_round (q * 10 ^ n)) / 10 ^ n),
     str_float = dec1, format_2f = dec1,
     parse_time = (\<lambda>v tz. Inl ParserError), isprintable = (\<lambda>c. True)\<rparr>"

section \<open>Lemmas on strings\<close>

lemma ustr_eq_iff [simp]: "ustr a = ustr b \<longleftrightarrow> a = b"
  unfolding ustr_def by (rule inj_map_eq_map) (simp add: inj_on_def)

lemma ustr_eq_Nil [simp]: "ustr s = [] \<longleftrightarrow> s = []"
  by (simp add: ustr_def)

lemma and_then_simps [simp]:
  "and_then (Inl e) f = Inl e" "and_then (Inr x) f = f x"
  by (simp_all add: and_then_def)

lemma plain_append [simp]: "plain (a @ b) \<longleftrightarrow> plain a \<and> plain b"
  by (auto simp: plain_def)

lemma plain_Nil [simp]: "plain []"
  by (simp add: plain_def)

lemma plain_Cons [simp]: "plain (c # s) \<longleftrightarrow> c \<noteq> 36 \<and> c \<noteq> 123 \<and> c \<noteq> 125 \<and> plain s"
  by (auto simp: plain_def)

lemma plain_str_nat: "plain (str_nat n)"
proof (induction n rule: str_nat.induct)
  case (1 n)
  show ?case
  proof (cases "n < 10")
    case True
    then show ?thesis by (subst str_nat.simps) simp
  next
    case False
    have "n mod 10 < 10" by simp
    then have "48 + n mod 10 \<noteq> 36 \<and> 48 + n mod 10 \<noteq> 123 \<and> 48 + n mod 10 \<noteq> 125"
      by linarith
    with False 1 show ?thesis by (subst str_nat.simps) simp
  qed
qed

lemma plain_str_int [simp]: "plain (str_int i)"
  by (simp add: str_int_def plain_str_nat)

lemma plain_get_temp_color [simp]: "plain (get_temp_color f)"
  by (simp add: get_temp_color_def LIGHT_BLUE_def TEAL_def BLUE_def LIGHT_GREEN_def GREEN_def
      YELLOW_def ORANGE_def RED_def ustr_def)

lemma plain_color [simp]: "plain (color s c) \<longleftrightarrow> plain s \<and> plain c"
  by (auto simp: color_def)

lemma plain_bold [simp]: "plain (bold s) \<longleftrightarrow> plain s"
  by (auto simp: bold_def)

lemma plain_field_label [simp]: "plain (field_label key)"
proof (cases "map_of MAPPED_FIELDS key")
  case None
  then show ?thesis by (simp add: field_label_def)
next
  case (Some l)
  then have "(key, l) \<in> set MAPPED_FIELDS" by (rule map_of_SomeD)
  then have "plain l"
    by (auto simp: MAPPED_FIELDS_def ustr_def)
  with Some show ?thesis by (simp add: field_label_def)
qed

lemma format_plain: "123 \<notin> set s \<Longrightarrow> 125 \<notin> set s \<Longrightarrow> py_format p f s = Inr s"
  by (induction s) (simp_all add: py_format.simps)

lemma format_template:
  assumes "123 \<notin> set s" "125 \<notin> set s"
  shows "py_format p f (ustr ''{pfx}{field} '' @ s) = Inr (p @ f @ 32 # s)"
  using assms by (simp add: py_format.simps ustr_def format_plain)

lemma replace_skip:
  "36 \<notin> set s \<Longrightarrow> replace_from (36 # old) new (s @ t) = s @ replace_from (36 # old) new t"
  by (induction s) (auto simp: replace_from.simps)

lemma replace_units_end:
  assumes "36 \<notin> set s"
  shows "py_replace (ustr ''$units'') [] (s @ ustr ''$units'') = s"
proof -
  have "replace_from (ustr ''$units'') [] (ustr ''$units'') = []"
    by (simp add: ustr_def replace_from.simps)
  with replace_skip[OF assms, of "ustr ''units''" "[]" "ustr ''$units''"]
  show ?thesis by (simp add: py_replace_def ustr_def)
qed


lemma parse_data_single:
  "parse_item L tz [] key values = Inr (Some text)
   \<Longrightarrow> parse_data L [(key, values)] tz = Inr (py_replace (ustr ''$units'') [] text)"
  by (simp add: parse_data_def)

lemma parse_item_Dict:
  assumes "key \<notin> set [ustr ''lat'', ustr ''lon'', ustr ''observation_time'']"
    and "vm (ustr ''value'') = Some v" and "truthy v" and "v \<noteq> PStr (ustr ''none'')"
  shows "parse_item L tz p key (Dict vm) =
     and_then (code_step key v vm) (\<lambda>vm1.
     and_then (temp_step L vm1) (\<lambda>vm2.
     and_then (wind_step key v vm2) (\<lambda>vm3.
     and_then (time_step L tz key v vm3) (\<lambda>vm4.
     and_then (py_format p (field_label key) (safe_substitute L (format_step L key vm4))) (\<lambda>text.
       Inr (Some text))))))"
  using assms by (simp add: parse_item_def dict_get_def)


lemma render_no_units:
  assumes "vm (ustr ''value'') = Some x" and "plain (py_str L x)"
    and "vm (ustr ''units'') = None"
  shows "py_format p l (safe_substitute L vm) = Inr (p @ l @ 32 # py_str L x @ ustr ''$units'')"
proof -
  have "123 \<notin> set (ustr ''$units'') \<and> 125 \<notin> set (ustr ''$units'')"
    by (simp add: ustr_def)
  with assms show ?thesis
    by (simp add: safe_substitute_def format_template plain_def)
qed


lemma not_special_code_step:
  "key \<noteq> ustr ''weather_code'' \<Longrightarrow> code_step key v vm = Inr vm"
  by (simp add: code_step_def)

lemma not_special_wind_step:
  "key \<noteq> ustr ''wind_direction'' \<Longrightarrow> wind_step key v vm = Inr vm"
  by (simp add: wind_step_def)

lemma not_special_time_step:
  "key \<notin> set [ustr ''sunrise'', ustr ''sunset''] \<Longrightarrow> time_step L tz key v vm = Inr vm"
  by (simp add: time_step_def)

lemma temp_step_other:
  "dict_get vm (ustr ''units'') \<noteq> PStr (ustr ''F'') \<Longrightarrow> dict_get vm (ustr ''units'') \<noteq> PStr (ustr ''C'')
   \<Longrightarrow> temp_step L vm = Inr vm"
  by (simp add: temp_step_def)

lemma py_round_of_int [simp]: "py_round (of_int n) = n"
  by (simp add: py_round_def)






lemma single_apply [simp]:
  "single x (ustr ''value'') = Some x" "single x (ustr ''units'') = None"
  by (simp_all add: single_def)

section \<open>Lemmas on the loop of \<^verbatim>\<open>_parse_data\<close>\<close>

lemma parse_loop_skip:
  assumes "\<And>p. parse_item L tz p key values = Inr None"
  shows "parse_loop L tz (pre @ (key, values) # post) s i = parse_loop L tz (pre @ post) s i"
proof (induction pre arbitrary: s i)
  case Nil
  show ?case by (simp add: assms)
next
  case (Cons a pre)
  obtain k v where a: "a = (k, v)" by (cases a)
  show ?case
    by (simp add: a Cons.IH split: sum.split option.split)
qed


lemma dropped_item:
  assumes "\<not> truthy (dict_get vm (ustr ''value'')) \<or> dict_get vm (ustr ''value'') = PStr (ustr ''none'')"
  shows "parse_data L (pre @ (key, Dict vm) # post) tz = parse_data L (pre @ post) tz"
proof -
  have "\<And>p. parse_item L tz p key (Dict vm) = Inr None"
    using assms by (simp add: parse_item_def)
  then show ?thesis
    by (simp add: parse_data_def parse_loop_skip)
qed

lemma format_step_units [simp]: "format_step L key vm (ustr ''units'') = vm (ustr ''units'')"
  by (simp add: format_step_def split: option.split sum.split)

lemma ustr_space: "ustr '' '' @ t = 32 # t"
  by (simp add: ustr_def)


lemma replace_segment_end:
  assumes "plain t"
  shows "py_replace (ustr ''$units'') [] (field_label key @ 32 # t @ ustr ''$units'')
    = field_label key @ 32 # t"
proof -
  have "36 \<notin> set (field_label key @ 32 # t)"
    using assms plain_field_label[of key] by (simp add: plain_def)
  from replace_units_end[OF this] show ?thesis by simp
qed

lemma plain_pipeline:
  assumes key: "key \<notin> set [ustr ''lat'', ustr ''lon'', ustr ''observation_time'',
        ustr ''weather_code'', ustr ''wind_direction'', ustr ''sunrise'', ustr ''sunset'']"
    and v: "vm (ustr ''value'') = Some v" "truthy v" "v \<noteq> PStr (ustr ''none'')"
    and t: "temp_step L vm = Inr vm2"
  shows "parse_item L tz p key (Dict vm) =
     and_then (py_format p (field_label key) (safe_substitute L (format_step L key vm2)))
       (\<lambda>text. Inr (Some text))"
proof -
  from key have k: "key \<notin> set [ustr ''lat'', ustr ''lon'', ustr ''observation_time'']"
    "key \<noteq> ustr ''weather_code''" "key \<noteq> ustr ''wind_direction''"
    "key \<notin> set [ustr ''sunrise'', ustr ''sunset'']"
    by auto
  show ?thesis
    by (simp only: parse_item_Dict[of key vm v, OF k(1) v(1) v(2) v(3)] not_special_code_step[OF k(2)] t
        not_special_wind_step[OF k(3)] not_special_time_step[OF k(4)] and_then_simps)
qed


lemma field_without_units:
  assumes key: "key \<notin> set [ustr ''lat'', ustr ''lon'', ustr ''observation_time'',
        ustr ''weather_code'', ustr ''wind_direction'', ustr ''sunrise'', ustr ''sunset'']"
    and v: "vm (ustr ''value'') = Some v" "truthy v" "v \<noteq> PStr (ustr ''none'')"
    and u: "vm (ustr ''units'') = None"
    and x: "format_step L key vm (ustr ''value'') = Some x" "plain (py_str L x)"
  shows "parse_data L [(key, Dict vm)] tz = Inr (field_label key @ ustr '' '' @ py_str L x)"
proof -
  have t: "temp_step L vm = Inr vm"
    using u by (intro temp_step_other) (simp_all add: dict_get_def)
  have f: "py_format [] (field_label key) (safe_substitute L (format_step L key vm))
      = Inr ([] @ field_label key @ 32 # py_str L x @ ustr ''$units'')"
    using x u by (intro render_no_units) simp_all
  have "parse_item L tz [] key (Dict vm)
      = Inr (Some ((field_label key @ 32 # py_str L x) @ ustr ''$units''))"
    by (simp add: plain_pipeline[OF key v(1) v(2) v(3) t] f)
  from parse_data_single[OF this] show ?thesis
    using x(2) by (simp add: replace_segment_end ustr_space)
qed



lemma plain_literals [simp]:
  "plain (ustr ''F/'')" "plain (ustr ''C/'')" "plain (ustr ''F'')" "plain (ustr ''C'')"
  by (simp_all add: ustr_def)



section \<open>Lemmas on the order of the fields\<close>


















section \<open>Lemmas on splitting the reply\<close>

lemma split_from_nonempty: "split_from sep cur s \<noteq> []"
  by (induction sep cur s rule: split_from.induct) (simp_all add: split_from.simps)

lemma py_join_Cons: "ys \<noteq> [] \<Longrightarrow> py_join sep (x # ys) = x @ sep @ py_join sep ys"
  by (cases ys) simp_all

lemma join_split_from: "sep \<noteq> [] \<Longrightarrow> py_join sep (split_from sep cur s) = cur @ s"
proof (induction sep cur s rule: split_from.induct)
  case (1 sep cur)
  show ?case by (simp add: split_from.simps)
next
  case (2 sep cur c cs)
  show ?case
  proof (cases "prefix sep (c # cs)")
    case True
    then obtain zs where zs: "c # cs = sep @ zs" by (auto simp: prefix_def)
    then have d: "drop (length sep) (c # cs) = zs" by simp
    have s: "split_from sep cur (c # cs) = cur # split_from sep [] zs"
      using True 2(3) by (simp add: split_from.simps(2)[of sep cur c cs] d del: drop_Suc_Cons)
    have "py_join sep (split_from sep [] zs) = zs"
      using 2(1)[OF _ 2(3)] True 2(3) by (simp add: d del: drop_Suc_Cons)
    then show ?thesis
      unfolding s by (simp add: py_join_Cons split_from_nonempty zs)
  next
    case False
    with 2 show ?thesis by (simp add: split_from.simps(2)[of sep cur c cs])
  qed
qed

lemma repr_char_nonempty: "1 \<le> length (repr_char L q c)"
  by (simp add: repr_char_def)

lemma length_concat_ge:
  "(\<And>c. 1 \<le> length (f c)) \<Longrightarrow> length s \<le> length (concat (map f s))"
proof (induction s)
  case Nil
  show ?case by simp
next
  case (Cons a s)
  from Cons.prems[of a] Cons.IH[OF Cons.prems] show ?case by simp
qed

lemma length_py_repr: "length s + 2 \<le> length (py_repr L s)"
proof -
  have "length s \<le> length (concat (map (repr_char L q) s))" for q
    by (rule length_concat_ge) (rule repr_char_nonempty)
  then show ?thesis by (simp add: py_repr_def Let_def)
qed

lemma length_ustr [simp]: "length (ustr s) = length s"
  by (simp add: ustr_def)

lemma long_reply_parts:
  assumes "475 < length (py_repr L reply)"
  shows "py_split reply (ustr '' | '') = Inr (split_from (ustr '' | '') [] reply)"
    and "py_join (ustr '' | '') (split_from (ustr '' | '') [] reply) = reply"
    and "say_reply L reply = Inr
      [py_join (ustr '' | '') (take (length (split_from (ustr '' | '') [] reply) div 2) (split_from (ustr '' | '') [] reply)),
       py_join (ustr '' | '') (drop (length (split_from (ustr '' | '') [] reply) div 2) (split_from (ustr '' | '') [] reply))]"
  using assms by (simp_all add: py_split_def say_reply_def join_split_from)

section \<open>The claims\<close>










text \<open>
  Claim C2, as the code has it. Bearing 0 gives the arrow with \<^verbatim>\<open>N\<close>, bearing 45 the arrow with
  \<^verbatim>\<open>NE\<close>, and bearing 337.5 the arrow with \<^verbatim>\<open>NW\<close>: every sector includes its upper bound, so
  337.5 is the last bearing of \<^verbatim>\<open>NW\<close> and \<^verbatim>\<open>N\<close> is \<open>b \<le> 22.5\<close> or \<open>337.5 < b\<close>. For every number
  the sectors are the eight intervals below, 45 degrees wide from 22.5 to 337.5.
\<close>

theorem wind_sectors:
  "get_wind (PInt 0) = Inr (PStr ([0x2193] @ ustr '' N''))
   \<and> get_wind (PInt 45) = Inr (PStr ([0x2199] @ ustr '' NE''))
   \<and> get_wind (PFloat 337.5) = Inr (PStr ([0x2198] @ ustr '' NW''))
   \<and> (num_of bearing = Some b \<longrightarrow>
        (get_wind bearing = Inr (PStr ([0x2193] @ ustr '' N'')) \<longleftrightarrow> b \<le> 22.5 \<or> 337.5 < b)
      \<and> (get_wind bearing = Inr (PStr ([0x2199] @ ustr '' NE'')) \<longleftrightarrow> 22.5 < b \<and> b \<le> 67.5)
      \<and> (get_wind bearing = Inr (PStr ([0x2190] @ ustr '' E'')) \<longleftrightarrow> 67.5 < b \<and> b \<le> 112.5)
      \<and> (get_wind bearing = Inr (PStr ([0x2196] @ ustr '' SE'')) \<longleftrightarrow> 112.5 < b \<and> b \<le> 157.5)
      \<and> (get_wind bearing = Inr (PStr ([0x2191] @ ustr '' S'')) \<longleftrightarrow> 157.5 < b \<and> b \<le> 202.5)
      \<and> (get_wind bearing = Inr (PStr ([0x2197] @ ustr '' SW'')) \<longleftrightarrow> 202.5 < b \<and> b \<le> 247.5)
      \<and> (get_wind bearing = Inr (PStr ([0x2192] @ ustr '' W'')) \<longleftrightarrow> 247.5 < b \<and> b \<le> 292.5)
      \<and> (get_wind bearing = Inr (PStr ([0x2198] @ ustr '' NW'')) \<longleftrightarrow> 292.5 < b \<and> b \<le> 337.5))"
proof (intro conjI impI)
  assume n: "num_of bearing = Some b"
  then have w: "get_wind bearing =
      Inr (if b \<le> 22.5 \<or> b > 337.5 then PStr ([0x2193] @ ustr '' N'')
               else if b \<le> 67.5 then PStr ([0x2199] @ ustr '' NE'')
               else if b \<le> 112.5 then PStr ([0x2190] @ ustr '' E'')
               else if b \<le> 157.5 then PStr ([0x2196] @ ustr '' SE'')
               else if b \<le> 202.5 then PStr ([0x2191] @ ustr '' S'')
               else if b \<le> 247.5 then PStr ([0x2197] @ ustr '' SW'')
               else if b \<le> 292.5 then PStr ([0x2192] @ ustr '' W'')
               else PStr ([0x2198] @ ustr '' NW''))"
    by (simp add: get_wind_def)
  show "get_wind bearing = Inr (PStr ([0x2193] @ ustr '' N'')) \<longleftrightarrow> b \<le> 22.5 \<or> 337.5 < b"
    unfolding w by simp
  show "get_wind bearing = Inr (PStr ([0x2199] @ ustr '' NE'')) \<longleftrightarrow> 22.5 < b \<and> b \<le> 67.5"
    unfolding w by simp
  show "get_wind bearing = Inr (PStr ([0x2190] @ ustr '' E'')) \<longleftrightarrow> 67.5 < b \<and> b \<le> 112.5"
    unfolding w by simp
  show "get_wind bearing = Inr (PStr ([0x2196] @ ustr '' SE'')) \<longleftrightarrow> 112.5 < b \<and> b \<le> 157.5"
    unfolding w by simp
  show "get_wind bearing = Inr (PStr ([0x2191] @ ustr '' S'')) \<longleftrightarrow> 157.5 < b \<and> b \<le> 202.5"
    unfolding w by simp
  show "get_wind bearing = Inr (PStr ([0x2197] @ ustr '' SW'')) \<longleftrightarrow> 202.5 < b \<and> b \<le> 247.5"
    unfolding w by simp
  show "get_wind bearing = Inr (PStr ([0x2192] @ ustr '' W'')) \<longleftrightarrow> 247.5 < b \<and> b \<le> 292.5"
    unfolding w by simp
  show "get_wind bearing = Inr (PStr ([0x2198] @ ustr '' NW'')) \<longleftrightarrow> 292.5 < b \<and> b \<le> 337.5"
    unfolding w by simp
qed (simp_all add: get_wind_def)

text \<open>Bearing 337.5 does not give \<^verbatim>\<open>N\<close>.\<close>

theorem wind_337_counterexample:
  "get_wind (PFloat 337.5) \<noteq> Inr (PStr ([0x2193] @ ustr '' N''))"
  by (simp add: get_wind_def)

theorem wind_sectors_witness:
  "num_of (PFloat 337.5) = Some 337.5
   \<and> get_wind (PFloat 337.5) = Inr (PStr ([0x2198] @ ustr '' NW''))
   \<and> get_wind (PFloat 337.5) \<noteq> Inr (PStr ([0x2193] @ ustr '' N''))"
  using wind_sectors[of "PFloat 337.5" "337.5"] by simp

lemma colors_distinct:
  "distinct [LIGHT_BLUE, TEAL, BLUE, LIGHT_GREEN, GREEN, YELLOW, ORANGE, RED]"
  by (simp add: LIGHT_BLUE_def TEAL_def BLUE_def LIGHT_GREEN_def GREEN_def YELLOW_def
      ORANGE_def RED_def)

text \<open>
  Claim C3. \<^verbatim>\<open>_get_temp_color\<close> gives one of eight different colours, the bands being bounded by
  10, 32, 50, 60, 70, 80 and 90 with a strict comparison: 10 has the colour \<^verbatim>\<open>TEAL\<close> of the band
  below 32, and 32 has the colour of the band below 50, not \<^verbatim>\<open>TEAL\<close>.
\<close>

theorem temp_color_bands:
  "get_temp_color 10 = TEAL \<and> get_temp_color 32 = BLUE \<and> get_temp_color 32 \<noteq> TEAL
   \<and> distinct [LIGHT_BLUE, TEAL, BLUE, LIGHT_GREEN, GREEN, YELLOW, ORANGE, RED]
   \<and> (get_temp_color f = LIGHT_BLUE \<longleftrightarrow> f < 10)
   \<and> (get_temp_color f = TEAL \<longleftrightarrow> 10 \<le> f \<and> f < 32)
   \<and> (get_temp_color f = BLUE \<longleftrightarrow> 32 \<le> f \<and> f < 50)
   \<and> (get_temp_color f = LIGHT_GREEN \<longleftrightarrow> 50 \<le> f \<and> f < 60)
   \<and> (get_temp_color f = GREEN \<longleftrightarrow> 60 \<le> f \<and> f < 70)
   \<and> (get_temp_color f = YELLOW \<longleftrightarrow> 70 \<le> f \<and> f < 80)
   \<and> (get_temp_color f = ORANGE \<longleftrightarrow> 80 \<le> f \<and> f < 90)
   \<and> (get_temp_color f = RED \<longleftrightarrow> 90 \<le> f)"
  using colors_distinct by (auto simp: get_temp_color_def)

theorem temp_color_bands_witness:
  "get_temp_color (63 / 2) = TEAL \<and> get_temp_color (63 / 2) \<noteq> BLUE"
  using temp_color_bands[of "63 / 2"] by simp

text \<open>
  Claim C7. A field whose \<^verbatim>\<open>value\<close> key is missing, whose value is \<^verbatim>\<open>None\<close> or is the string
  \<^verbatim>\<open>"none"\<close> adds nothing to the text of \<^verbatim>\<open>_parse_data\<close>, whatever its name, its other keys and
  the fields around it: the result is that of the data without the field (the same text or the
  same error), and alone it gives the empty text.
\<close>

theorem missing_value_dropped:
  assumes "vm (ustr ''value'') = None \<or> vm (ustr ''value'') = Some PNone
    \<or> vm (ustr ''value'') = Some (PStr (ustr ''none''))"
  shows "parse_data L (pre @ (key, Dict vm) # post) tz = parse_data L (pre @ post) tz
    \<and> parse_data L [(key, Dict vm)] tz = Inr []"
proof -
  have d: "\<not> truthy (dict_get vm (ustr ''value'')) \<or> dict_get vm (ustr ''value'') = PStr (ustr ''none'')"
    using assms by (auto simp: dict_get_def)
  from dropped_item[OF d, of L pre key post tz] dropped_item[OF d, of L "[]" key "[]" tz]
  show ?thesis by (simp add: parse_data_def py_replace_def replace_from.simps)
qed

theorem missing_value_dropped_witness:
  "parse_data exact_lib
     [(ustr ''humidity'', Dict [ustr ''value'' \<mapsto> PInt 45]),
      (ustr ''temp'', Dict [ustr ''units'' \<mapsto> PStr (ustr ''F'')]),
      (ustr ''wind_speed'', Dict [ustr ''value'' \<mapsto> PInt 5])] (ustr ''UTC'')
   = parse_data exact_lib
     [(ustr ''humidity'', Dict [ustr ''value'' \<mapsto> PInt 45]),
      (ustr ''wind_speed'', Dict [ustr ''value'' \<mapsto> PInt 5])] (ustr ''UTC'')
   \<and> parse_data exact_lib [(ustr ''temp'', Dict [ustr ''units'' \<mapsto> PStr (ustr ''F'')])] (ustr ''UTC'') = Inr []"
  using missing_value_dropped[of "[ustr ''units'' \<mapsto> PStr (ustr ''F'')]" exact_lib
      "[(ustr ''humidity'', Dict [ustr ''value'' \<mapsto> PInt 45])]" "ustr ''temp''"
      "[(ustr ''wind_speed'', Dict [ustr ''value'' \<mapsto> PInt 5])]" "ustr ''UTC''"]
  by simp

text \<open>
  Claim C10. The falsy values are \<^verbatim>\<open>None\<close>, the integer 0, the float 0 and the empty string, and
  a field with a falsy value adds nothing to the text of \<^verbatim>\<open>_parse_data\<close>: the result is that of
  the data without the field, and alone it gives the empty text.
\<close>

theorem falsy_value_dropped:
  "(\<not> truthy v \<longleftrightarrow> v = PNone \<or> v = PInt 0 \<or> v = PFloat 0 \<or> v = PStr [])
   \<and> (vm (ustr ''value'') = Some v \<and> \<not> truthy v
      \<longrightarrow> parse_data L (pre @ (key, Dict vm) # post) tz = parse_data L (pre @ post) tz
        \<and> parse_data L [(key, Dict vm)] tz = Inr [])"
proof (intro conjI impI)
  show "\<not> truthy v \<longleftrightarrow> v = PNone \<or> v = PInt 0 \<or> v = PFloat 0 \<or> v = PStr []"
    by (cases v) simp_all
next
  assume "vm (ustr ''value'') = Some v \<and> \<not> truthy v"
  then have d: "\<not> truthy (dict_get vm (ustr ''value'')) \<or> dict_get vm (ustr ''value'') = PStr (ustr ''none'')"
    by (simp add: dict_get_def)
  show "parse_data L (pre @ (key, Dict vm) # post) tz = parse_data L (pre @ post) tz"
    by (rule dropped_item[OF d])
  from dropped_item[OF d, of L "[]" key "[]" tz]
  show "parse_data L [(key, Dict vm)] tz = Inr []"
    by (simp add: parse_data_def py_replace_def replace_from.simps)
qed

theorem falsy_value_dropped_witness:
  "parse_data exact_lib
     [(ustr ''humidity'', Dict [ustr ''value'' \<mapsto> PInt 0, ustr ''units'' \<mapsto> PStr (ustr ''%'')]),
      (ustr ''wind_speed'', Dict [ustr ''value'' \<mapsto> PInt 5])] (ustr ''UTC'')
   = parse_data exact_lib [(ustr ''wind_speed'', Dict [ustr ''value'' \<mapsto> PInt 5])] (ustr ''UTC'')
   \<and> parse_data exact_lib
     [(ustr ''humidity'', Dict [ustr ''value'' \<mapsto> PInt 0, ustr ''units'' \<mapsto> PStr (ustr ''%'')])]
     (ustr ''UTC'') = Inr []"
  using falsy_value_dropped[of "PInt 0"
      "[ustr ''value'' \<mapsto> PInt 0, ustr ''units'' \<mapsto> PStr (ustr ''%'')]" exact_lib "[]"
      "ustr ''humidity''" "[(ustr ''wind_speed'', Dict [ustr ''value'' \<mapsto> PInt 5])]" "ustr ''UTC''"]
  by simp
























lemma length_hex_digits [simp]: "length (hex_digits w c) = w"
  by (simp add: hex_digits_def)

lemma repr_char_le: "length (repr_char L q c) \<le> 10"
  by (simp add: repr_char_def)

lemma length_concat_le:
  "(\<And>c. length (f c) \<le> n) \<Longrightarrow> length (concat (map f s)) \<le> n * length s"
proof (induction s)
  case Nil
  show ?case by simp
next
  case (Cons a s)
  from Cons.prems[of a] Cons.IH[OF Cons.prems] show ?case by simp
qed

lemma length_py_repr_le: "length (py_repr L s) \<le> 10 * length s + 2"
proof -
  have "length (concat (map (repr_char L q) s)) \<le> 10 * length s" for q
    by (rule length_concat_le) (rule repr_char_le)
  then show ?thesis by (simp add: py_repr_def Let_def)
qed

lemma split_from_skip:
  assumes "124 \<notin> set s" and "t = [] \<or> hd t \<noteq> 124"
  shows "split_from (ustr '' | '') cur (s @ t) = split_from (ustr '' | '') (cur @ s) t"
  using assms(1)
proof (induction s arbitrary: cur)
  case Nil
  show ?case by simp
next
  case (Cons c s)
  have "\<not> prefix [124, 32] (s @ t)"
  proof (cases s)
    case Nil
    with assms(2) show ?thesis by (cases t) auto
  next
    case (Cons d ds)
    with Cons.prems show ?thesis by auto
  qed
  then have "\<not> prefix (ustr '' | '') (c # s @ t)"
    by (simp add: ustr_def)
  then have "split_from (ustr '' | '') cur ((c # s) @ t) = split_from (ustr '' | '') (cur @ [c]) (s @ t)"
    by (simp add: split_from.simps(2)[of "ustr '' | ''" cur c "s @ t"])
  with Cons.IH[of "cur @ [c]"] Cons.prems show ?case by simp
qed

lemma split_from_hit:
  "split_from (ustr '' | '') cur (ustr '' | '' @ t) = cur # split_from (ustr '' | '') [] t"
  by (simp add: ustr_def split_from.simps(2))

text \<open>
  Claim C4, as the code has it. The test of \<^verbatim>\<open>weather\<close> is \<^verbatim>\<open>len(repr(reply)) > 475\<close>: it measures
  the quoted and escaped form of the reply, which is at least two characters longer than the
  reply (and at most ten times as long, plus two). When that form is longer than 475
  characters, the reply is split at \<^verbatim>\<open>' | '\<close> into parts, which joined again give the reply, and
  exactly two texts are said: the join of the first half of the parts (their number divided
  by two, rounded down, so the smaller or equal share) and the join of the other parts, the
  parts being kept as they are. When that form has at most 475 characters, the reply is said
  whole, once. So a reply of more than 473 characters is always split.
\<close>

theorem reply_split:
  "length reply + 2 \<le> length (py_repr L reply)
   \<and> length (py_repr L reply) \<le> 10 * length reply + 2
   \<and> (475 < length (py_repr L reply) \<longrightarrow>
        (\<exists>parts. py_split reply (ustr '' | '') = Inr parts
           \<and> py_join (ustr '' | '') parts = reply
           \<and> say_reply L reply
               = Inr [py_join (ustr '' | '') (take (length parts div 2) parts),
                      py_join (ustr '' | '') (drop (length parts div 2) parts)]
           \<and> take (length parts div 2) parts @ drop (length parts div 2) parts = parts
           \<and> length (take (length parts div 2) parts) \<le> length (drop (length parts div 2) parts)))
   \<and> (length (py_repr L reply) \<le> 475 \<longrightarrow> say_reply L reply = Inr [reply])"
proof (intro conjI impI)
  show "length reply + 2 \<le> length (py_repr L reply)" by (rule length_py_repr)
  show "length (py_repr L reply) \<le> 10 * length reply + 2" by (rule length_py_repr_le)
next
  assume a: "475 < length (py_repr L reply)"
  let ?parts = "split_from (ustr '' | '') [] reply"
  have "length (take (length ?parts div 2) ?parts) \<le> length (drop (length ?parts div 2) ?parts)"
    by simp
  with long_reply_parts[OF a]
  show "\<exists>parts. py_split reply (ustr '' | '') = Inr parts
           \<and> py_join (ustr '' | '') parts = reply
           \<and> say_reply L reply
               = Inr [py_join (ustr '' | '') (take (length parts div 2) parts),
                      py_join (ustr '' | '') (drop (length parts div 2) parts)]
           \<and> take (length parts div 2) parts @ drop (length parts div 2) parts = parts
           \<and> length (take (length parts div 2) parts) \<le> length (drop (length parts div 2) parts)"
    by (intro exI[of _ ?parts]) (simp only: append_take_drop_id simp_thms)
next
  assume "length (py_repr L reply) \<le> 475"
  then show "say_reply L reply = Inr [reply]" by (simp add: say_reply_def)
qed

lemma long_reply:
  "get_weather exact_lib (replicate 382 97) (ustr ''UTC'')
     [(ustr ''precipitation_type'', Dict [ustr ''value'' \<mapsto> PStr (ustr ''rain'')])]
   = Inr ((bold (ustr ''['' @ replicate 382 97 @ ustr '']'') @ ustr '' ''
       @ bold (ustr ''Precipitation:'') @ ustr '' rain'')
       @ ustr '' | '' @ ustr ''Powered by ClimaCell API (https://www.climacell.co/weather-api)'')"
proof -
  let ?vm = "[ustr ''value'' \<mapsto> PStr (ustr ''rain'')]"
  have k: "ustr ''precipitation_type'' \<notin> set [ustr ''lat'', ustr ''lon'', ustr ''observation_time'',
        ustr ''weather_code'', ustr ''wind_direction'', ustr ''sunrise'', ustr ''sunset'']"
    by simp
  have v: "?vm (ustr ''value'') = Some (PStr (ustr ''rain''))" "truthy (PStr (ustr ''rain''))"
    "PStr (ustr ''rain'') \<noteq> PStr (ustr ''none'')" "?vm (ustr ''units'') = None"
    by simp_all
  have x: "format_step exact_lib (ustr ''precipitation_type'') ?vm (ustr ''value'')
      = Some (PStr (ustr ''rain''))"
    by (simp add: format_step_def get_value_format_def formats_def stringify_def)
  have p: "plain (py_str exact_lib (PStr (ustr ''rain'')))" by (simp add: ustr_def)
  have l: "field_label (ustr ''precipitation_type'') = bold (ustr ''Precipitation:'')"
    by (simp add: field_label_def MAPPED_FIELDS_def)
  have s: "sorted_dict [(ustr ''precipitation_type'', Dict ?vm)] = [(ustr ''precipitation_type'', Dict ?vm)]"
    by (simp add: sorted_dict_def)
  have a: "ustr '' | Powered by ClimaCell API (https://www.climacell.co/weather-api)''
      = ustr '' | '' @ ustr ''Powered by ClimaCell API (https://www.climacell.co/weather-api)''"
    by (simp add: ustr_def)
  have b: "ustr '' '' @ ustr ''rain'' = ustr '' rain''" by (simp add: ustr_def)
  from field_without_units[OF k v(1,2,3,4) x p, of "ustr ''UTC''"]
  have "parse_data exact_lib [(ustr ''precipitation_type'', Dict ?vm)] (ustr ''UTC'')
      = Inr (bold (ustr ''Precipitation:'') @ ustr '' rain'')"
    by (simp only: l py_str.simps b)
  then show ?thesis
    by (simp add: get_weather_def s a)
qed

text \<open>
  A reply of 474 characters, for a location of 382 characters and one field, is said as
  two texts.
\<close>

theorem reply_474_counterexample:
  "map_sum id length (get_weather exact_lib (replicate 382 97) (ustr ''UTC'')
     [(ustr ''precipitation_type'', Dict [ustr ''value'' \<mapsto> PStr (ustr ''rain'')])]) = Inr 474
   \<and> weather exact_lib (replicate 382 97) (ustr ''UTC'')
     [(ustr ''precipitation_type'', Dict [ustr ''value'' \<mapsto> PStr (ustr ''rain'')])]
   = Inr [bold (ustr ''['' @ replicate 382 97 @ ustr '']'') @ ustr '' ''
            @ bold (ustr ''Precipitation:'') @ ustr '' rain'',
          ustr ''Powered by ClimaCell API (https://www.climacell.co/weather-api)'']"
proof -
  let ?s = "bold (ustr ''['' @ replicate 382 97 @ ustr '']'') @ ustr '' ''
       @ bold (ustr ''Precipitation:'') @ ustr '' rain''"
  let ?t = "ustr ''Powered by ClimaCell API (https://www.climacell.co/weather-api)''"
  let ?R = "?s @ ustr '' | '' @ ?t"
  have len: "length ?R = 474" by (simp add: bold_def)
  have "length ?R + 2 \<le> length (py_repr exact_lib ?R)" by (rule length_py_repr)
  with len have big: "475 < length (py_repr exact_lib ?R)" by linarith
  have ns: "124 \<notin> set ?s" by (simp add: bold_def ustr_def)
  have nt: "124 \<notin> set ?t" by (simp add: ustr_def)
  have h: "ustr '' | '' @ ?t = [] \<or> hd (ustr '' | '' @ ?t) \<noteq> 124" by (simp add: ustr_def)
  have "split_from (ustr '' | '') [] ?R = split_from (ustr '' | '') ([] @ ?s) (ustr '' | '' @ ?t)"
    using ns h by (rule split_from_skip)
  also have "\<dots> = ?s # split_from (ustr '' | '') [] (?t @ [])"
    by (simp only: split_from_hit append_Nil append_Nil2)
  also have "split_from (ustr '' | '') [] (?t @ []) = split_from (ustr '' | '') ([] @ ?t) []"
    using nt by (intro split_from_skip) simp_all
  finally have parts: "split_from (ustr '' | '') [] ?R = [?s, ?t]"
    by (simp add: split_from.simps(1))
  from long_reply_parts(3)[OF big]
  have "say_reply exact_lib ?R = Inr [?s, ?t]"
    unfolding parts by simp
  with len show ?thesis
    by (simp only: weather_def long_reply and_then_simps map_sum.simps id_apply)
qed

text \<open>A reply of 474 characters and a reply of 5 characters.\<close>

theorem reply_split_witness:
  "475 < length (py_repr exact_lib (replicate 474 97))
   \<and> (\<exists>parts. py_split (replicate 474 97) (ustr '' | '') = Inr parts
           \<and> py_join (ustr '' | '') parts = replicate 474 97
           \<and> say_reply exact_lib (replicate 474 97)
               = Inr [py_join (ustr '' | '') (take (length parts div 2) parts),
                      py_join (ustr '' | '') (drop (length parts div 2) parts)]
           \<and> take (length parts div 2) parts @ drop (length parts div 2) parts = parts
           \<and> length (take (length parts div 2) parts) \<le> length (drop (length parts div 2) parts))
   \<and> length (py_repr exact_lib (ustr ''hello'')) \<le> 475
   \<and> say_reply exact_lib (ustr ''hello'') = Inr [ustr ''hello'']"
proof -
  note A = reply_split[of "replicate 474 97" exact_lib]
  note B = reply_split[of "ustr ''hello''" exact_lib]
  from A have a: "475 < length (py_repr exact_lib (replicate 474 97))" by simp
  from B have b: "length (py_repr exact_lib (ustr ''hello'')) \<le> 475" by simp
  from A a B b show ?thesis by blast
qed

end
